theory Spec2Isabelle
  imports Main "HOL-Library.AList"
begin

section \<open>Strings and pattern searches\<close>

text \<open>
  Pages, URLs and messages are Python \<open>str\<close> values, modelled as \<open>string\<close> (ASCII).
  The two quote characters of the source's character class \<^verbatim>\<open>["\']\<close> get names.
\<close>

definition dq :: char where
  "dq = CHR 0x22"

definition sq :: char where
  "sq = CHR 0x27"

text \<open>Python's \<^verbatim>\<open>s.startswith(p)\<close> and \<^verbatim>\<open>p in s\<close>.\<close>

definition startswith :: "string \<Rightarrow> string \<Rightarrow> bool" where
  "startswith s p = (take (length p) s = p)"

fun contains :: "string \<Rightarrow> string \<Rightarrow> bool" where
  "contains p [] = (p = [])"
| "contains p (c # cs) = (startswith (c # cs) p \<or> contains p cs)"

text \<open>
  The boolean uses of \<^verbatim>\<open>re.search\<close> in the source need only character classes,
  concatenation, alternation and repetition. A pattern is a value of \<open>rx\<close>; the search
  runs on derivatives, so it is a structurally recursive, executable function.
\<close>

datatype cclass =
    OneOf string
  | NoneOf string
  | Digit
  | Space
  | NonWordNoneOf string

definition is_digit :: "char \<Rightarrow> bool" where
  "is_digit c = (c \<in> set ''0123456789'')"

definition is_space :: "char \<Rightarrow> bool" where
  "is_space c = (c \<in> set [CHR '' '', CHR 0x09, CHR 0x0A, CHR 0x0B, CHR 0x0C, CHR 0x0D,
                             CHR 0x1C, CHR 0x1D, CHR 0x1E, CHR 0x1F])"

definition is_word :: "char \<Rightarrow> bool" where
  "is_word c = (c \<in> set ''abcdefghijklmnopqrstuvwxyzABCDEFGHIJKLMNOPQRSTUVWXYZ0123456789_'')"

fun in_cclass :: "cclass \<Rightarrow> char \<Rightarrow> bool" where
  "in_cclass (OneOf cs) c = (c \<in> set cs)"
| "in_cclass (NoneOf cs) c = (c \<notin> set cs)"
| "in_cclass Digit c = is_digit c"
| "in_cclass Space c = is_space c"
| "in_cclass (NonWordNoneOf cs) c = (\<not> is_word c \<and> c \<notin> set cs)"

datatype rx =
    Zero
  | Eps
  | Cl cclass
  | Seq rx rx
  | Alt rx rx
  | Star rx

fun Lit :: "string \<Rightarrow> rx" where
  "Lit [] = Eps"
| "Lit (c # cs) = Seq (Cl (OneOf [c])) (Lit cs)"

definition Plus :: "rx \<Rightarrow> rx" where
  "Plus r = Seq r (Star r)"

definition Opt :: "rx \<Rightarrow> rx" where
  "Opt r = Alt r Eps"

fun Seqs :: "rx list \<Rightarrow> rx" where
  "Seqs [] = Eps"
| "Seqs (r # rs) = Seq r (Seqs rs)"

fun nullable :: "rx \<Rightarrow> bool" where
  "nullable Zero = False"
| "nullable Eps = True"
| "nullable (Cl _) = False"
| "nullable (Seq r s) = (nullable r \<and> nullable s)"
| "nullable (Alt r s) = (nullable r \<or> nullable s)"
| "nullable (Star _) = True"

fun seq :: "rx \<Rightarrow> rx \<Rightarrow> rx" where
  "seq Zero _ = Zero"
| "seq Eps s = s"
| "seq r s = Seq r s"

fun alt :: "rx \<Rightarrow> rx \<Rightarrow> rx" where
  "alt Zero s = s"
| "alt r Zero = r"
| "alt r s = Alt r s"

fun deriv :: "char \<Rightarrow> rx \<Rightarrow> rx" where
  "deriv c Zero = Zero"
| "deriv c Eps = Zero"
| "deriv c (Cl k) = (if in_cclass k c then Eps else Zero)"
| "deriv c (Seq r s) =
     (if nullable r then alt (seq (deriv c r) s) (deriv c s) else seq (deriv c r) s)"
| "deriv c (Alt r s) = alt (deriv c r) (deriv c s)"
| "deriv c (Star r) = seq (deriv c r) (Star r)"

text \<open>\<^verbatim>\<open>re.match(r, s) is not None\<close>: some prefix of \<open>s\<close> matches \<open>r\<close>.\<close>

fun re_match :: "rx \<Rightarrow> string \<Rightarrow> bool" where
  "re_match r [] = nullable r"
| "re_match r (c # cs) = (nullable r \<or> (r \<noteq> Zero \<and> re_match (deriv c r) cs))"

text \<open>\<^verbatim>\<open>re.search(r, s) is not None\<close>: a match starts at some position of \<open>s\<close>.\<close>

fun re_search :: "rx \<Rightarrow> string \<Rightarrow> bool" where
  "re_search r [] = nullable r"
| "re_search r (c # cs) = (re_match r (c # cs) \<or> re_search r cs)"

section \<open>Errors, collaborators and the extractor's state\<close>

text \<open>
  \<^verbatim>\<open>ExtractorError(msg, expected=...)\<close> carries its message and the \<open>expected\<close> flag;
  \<^verbatim>\<open>raise_login_required(msg)\<close> is kept apart from it, and \<open>TransportError\<close> stands for
  whatever a fetch itself raises.
\<close>

datatype error =
    ExtractorError string bool
  | LoginRequired string
  | TransportError string
  | IndexError
  | KeyError string
  | AttributeError

text \<open>
  The functions the extractor calls but does not define (the fetches of
  \<^verbatim>\<open>InfoExtractor\<close>, the credential lookup and the HTML helpers of \<^verbatim>\<open>utils\<close>)
  are the fields of one record, so that every definition below is a function of them.
\<close>

record ext =
  get_login_info :: "string \<Rightarrow> (string \<times> string) option"
  download_webpage_handle :: "string \<Rightarrow> error + (string \<times> string)"
  download_webpage :: "string \<Rightarrow> error + string"
  post_webpage :: "string \<Rightarrow> (string \<times> string) list \<Rightarrow> string \<Rightarrow> error + string"
  download_json :: "string \<Rightarrow> string \<Rightarrow> error + (string \<rightharpoonup> string)"
  hidden_inputs :: "string \<Rightarrow> (string \<times> string) list"
  search_form_action :: "string \<Rightarrow> string option"
  urljoin :: "string \<Rightarrow> string \<Rightarrow> string"
  get_element_by_class :: "string \<Rightarrow> string \<Rightarrow> string option"
  get_element_html_by_class :: "string \<Rightarrow> string \<Rightarrow> string option"
  extract_attributes :: "string \<Rightarrow> (string \<rightharpoonup> string)"
  clean_html :: "string \<Rightarrow> string"
  og_search_title :: "string \<Rightarrow> string option"
  search_section_item :: "string \<Rightarrow> string \<Rightarrow> string option"
  search_ss_position :: "string \<Rightarrow> nat option"
  findall_section_titles :: "string \<Rightarrow> string list"
  finditer_section_items :: "string \<Rightarrow> string list"
  search_lecture_url :: "string \<Rightarrow> string option"
  search_lecture_id :: "string \<Rightarrow> string option"
  search_lecture_name :: "string \<Rightarrow> string option"
  search_course_title :: "string \<Rightarrow> string option"

text \<open>
  What an extractor instance did to the outside world, oldest first. The source keeps no
  such log; it is the means to say which lookups and fetches a call performs.
\<close>

datatype event =
    CredentialLookup string
  | Fetch string
  | Post string
  | FetchJson string

record ie_state =
  logged_in :: bool
  trace :: "event list"

definition emit :: "event \<Rightarrow> ie_state \<Rightarrow> ie_state" where
  "emit e st = st\<lparr>trace := trace st @ [e]\<rparr>"

section \<open>TeachableBaseIE\<close>

definition URL_PREFIX :: string where
  "URL_PREFIX = ''teachable:''"

definition SITES :: "(string \<times> string) list" where
  "SITES =
    [(''v1.upskillcourses.com'', ''upskill''),
     (''gns3.teachable.com'', ''gns3''),
     (''academyhacker.com'', ''academyhacker''),
     (''stackskills.com'', ''stackskills''),
     (''market.saleshacker.com'', ''saleshacker''),
     (''learnability.org'', ''learnability''),
     (''edurila.com'', ''edurila''),
     (''courses.workitdaily.com'', ''workitdaily'')]"

text \<open>\<^verbatim>\<open>self._SITES.get(site, site)\<close>\<close>

definition SITES_get :: "string \<Rightarrow> string" where
  "SITES_get site = (case map_of SITES site of Some m \<Rightarrow> m | None \<Rightarrow> site)"

definition real_initialize :: "ie_state \<Rightarrow> ie_state" where
  "real_initialize st = st\<lparr>logged_in := False\<rparr>"

text \<open>
  The three patterns of \<^verbatim>\<open>is_logged\<close>. In the second one \<^verbatim>\<open>[^>]+\bhref\<close> asks for a
  word boundary before the letter \<open>h\<close>, that is, the last character of the \<^verbatim>\<open>[^>]+\<close>
  run is not a word character.
\<close>

definition logged_patterns :: "rx list" where
  "logged_patterns =
    [Seqs [Lit ''class='', Cl (OneOf [dq, sq]), Lit ''user-signout''],
     Seqs [Lit ''<a'', Star (Cl (NoneOf ''>'')), Cl (NonWordNoneOf ''>''), Lit ''href='',
           Cl (OneOf [dq, sq]), Lit ''/sign_out''],
     Seqs [Lit ''Log'', Plus (Cl Space), Cl (OneOf ''Oo''), Lit ''ut'', Star (Cl Space), Lit ''<'']]"

definition is_logged :: "string \<Rightarrow> bool" where
  "is_logged webpage = list_ex (\<lambda>p. re_search p webpage) logged_patterns"

definition privacy_policy_error :: "string \<Rightarrow> error" where
  "privacy_policy_error site =
     ExtractorError (''Unable to login: '' @ site @ '' asks you to accept new Privacy Policy. ''
        @ ''Go to https://'' @ site @ ''/ and accept.'') True"

text \<open>
  The form that is posted: the hidden inputs of the page, with \<open>email\<close> and
  \<open>password\<close> set (\<^verbatim>\<open>login_form.update(...)\<close>).
\<close>

definition login_form_of :: "ext \<Rightarrow> string \<Rightarrow> string \<Rightarrow> string \<Rightarrow> (string \<times> string) list" where
  "login_form_of X login_page username password =
     AList.update ''password'' password
       (AList.update ''email'' username (hidden_inputs X login_page))"

text \<open>
  The POST target: the form's action when the page has one, the login page's own URL
  otherwise, made absolute when it does not start with \<open>http\<close>.
\<close>

definition post_url_of :: "ext \<Rightarrow> string \<Rightarrow> string \<Rightarrow> string" where
  "post_url_of X login_page login_url =
     (let post_url = (case search_form_action X login_page of
                        Some u \<Rightarrow> u | None \<Rightarrow> login_url)
      in if \<not> startswith post_url ''http'' then urljoin X login_url post_url else post_url)"

definition sign_in_url :: "string \<Rightarrow> string" where
  "sign_in_url site = ''https://'' @ site @ ''/sign_in''"

text \<open>
  \<^verbatim>\<open>_login(self, site)\<close>: the result is the exception raised (\<open>Inl\<close>) or a normal return,
  together with the instance's state afterwards.
\<close>

definition login :: "ext \<Rightarrow> string \<Rightarrow> ie_state \<Rightarrow> (error + unit) \<times> ie_state" where
  "login X site st =
    (if logged_in st then (Inr (), st)
     else
       let st1 = emit (CredentialLookup (SITES_get site)) st in
       case get_login_info X (SITES_get site) of
         None \<Rightarrow> (Inr (), st1)
       | Some (username, password) \<Rightarrow>
           let st2 = emit (Fetch (sign_in_url site)) st1 in
           case download_webpage_handle X (sign_in_url site) of
             Inl e \<Rightarrow> (Inl e, st2)
           | Inr (login_page, login_url) \<Rightarrow>
               if is_logged login_page then (Inr (), st2\<lparr>logged_in := True\<rparr>)
               else
                 let login_form = login_form_of X login_page username password;
                     post_url = post_url_of X login_page login_url;
                     st3 = emit (Post post_url) st2 in
                 case post_webpage X post_url login_form login_url of
                   Inl e \<Rightarrow> (Inl e, st3)
                 | Inr response \<Rightarrow>
                     if contains ''>I accept the new Privacy Policy<'' response
                     then (Inl (privacy_policy_error site), st3)
                     else if is_logged response then (Inr (), st3\<lparr>logged_in := True\<rparr>)
                     else
                       (case get_element_by_class X ''auth-flash-error'' response of
                          Some message \<Rightarrow>
                            (Inl (ExtractorError (''Unable to login: '' @ clean_html X message) True), st3)
                        | None \<Rightarrow> (Inl (ExtractorError ''Unable to log in'' False), st3)))"

section \<open>URL shapes\<close>

text \<open>
  \<^verbatim>\<open>_VALID_URL\<close> is matched with \<^verbatim>\<open>re.match\<close>, from the start of the URL. Its pieces are
  parsers that return what is left of the input; where the pattern can backtrack
  (\<^verbatim>\<open>(?:www\.)?\<close>, the alternation of site names, \<^verbatim>\<open>(?:enrolled/)?\<close>) the alternatives
  are tried in the pattern's order. A run \<^verbatim>\<open>[^/]+\<close> or \<^verbatim>\<open>\d+\<close> is followed by a
  character outside its class or by nothing, so only its longest match can succeed.
\<close>

definition lit :: "string \<Rightarrow> string \<Rightarrow> string option" where
  "lit p s = (if startswith s p then Some (drop (length p) s) else None)"

definition many1 :: "(char \<Rightarrow> bool) \<Rightarrow> string \<Rightarrow> (string \<times> string) option" where
  "many1 P s = (if takeWhile P s = [] then None else Some (takeWhile P s, dropWhile P s))"

definition orelse :: "'a option \<Rightarrow> 'a option \<Rightarrow> 'a option" where
  "orelse a b = (case a of Some x \<Rightarrow> Some x | None \<Rightarrow> b)"

fun first_some :: "('a \<Rightarrow> 'b option) \<Rightarrow> 'a list \<Rightarrow> 'b option" where
  "first_some f [] = None"
| "first_some f (x # xs) = orelse (f x) (first_some f xs)"

text \<open>\<^verbatim>\<open>https?://\<close>\<close>

definition scheme :: "string \<Rightarrow> string option" where
  "scheme s = orelse (lit ''https://'' s) (lit ''http://'' s)"

text \<open>
  The part both patterns share,
  \<^verbatim>\<open>(?:teachable:https?://(?P<site_t>[^/]+)|https?://(?:www\.)?(?P<site>...))\<close>, followed
  by the path pattern \<open>path\<close>, which yields the group \<open>id\<close>. The result is
  \<^verbatim>\<open>(mobj.group('site') or mobj.group('site_t'), mobj.group('id'))\<close>.
\<close>

definition known_site :: "(string \<Rightarrow> string option) \<Rightarrow> string \<Rightarrow> (string \<times> string) option" where
  "known_site path s =
     first_some (\<lambda>site. case lit site s of
                            None \<Rightarrow> None
                          | Some r \<Rightarrow> map_option (Pair site) (path r))
                (map fst SITES)"

definition match_valid_url :: "(string \<Rightarrow> string option) \<Rightarrow> string \<Rightarrow> (string \<times> string) option" where
  "match_valid_url path url =
     orelse
       (case lit URL_PREFIX url of
          None \<Rightarrow> None
        | Some u1 \<Rightarrow>
            (case scheme u1 of
               None \<Rightarrow> None
             | Some u2 \<Rightarrow>
                 (case many1 (\<lambda>c. c \<noteq> CHR ''/'') u2 of
                    None \<Rightarrow> None
                  | Some (site_t, u3) \<Rightarrow> map_option (Pair site_t) (path u3))))
       (case scheme url of
          None \<Rightarrow> None
        | Some u1 \<Rightarrow>
            orelse (case lit ''www.'' u1 of None \<Rightarrow> None | Some u2 \<Rightarrow> known_site path u2)
                   (known_site path u1))"

text \<open>\<^verbatim>\<open>/courses/[^/]+/lectures/(?P<id>\d+)\<close>\<close>

definition lecture_path :: "string \<Rightarrow> string option" where
  "lecture_path s =
     (case lit ''/courses/'' s of
        None \<Rightarrow> None
      | Some r1 \<Rightarrow>
          (case many1 (\<lambda>c. c \<noteq> CHR ''/'') r1 of
             None \<Rightarrow> None
           | Some (slug, r2) \<Rightarrow>
               (case lit ''/lectures/'' r2 of
                  None \<Rightarrow> None
                | Some r3 \<Rightarrow> map_option fst (many1 is_digit r3))))"

text \<open>\<^verbatim>\<open>/(?:courses|p)/(?:enrolled/)?(?P<id>[^/?#&]+)\<close>\<close>

definition course_id_group :: "string \<Rightarrow> string option" where
  "course_id_group s = map_option fst (many1 (\<lambda>c. c \<notin> set ''/?#&'') s)"

definition course_path :: "string \<Rightarrow> string option" where
  "course_path s =
     (case orelse (lit ''/courses/'' s) (lit ''/p/'' s) of
        None \<Rightarrow> None
      | Some r1 \<Rightarrow>
          orelse (case lit ''enrolled/'' r1 of None \<Rightarrow> None | Some r2 \<Rightarrow> course_id_group r2)
                 (course_id_group r1))"

text \<open>
  \<^verbatim>\<open>InfoExtractor.suitable(url)\<close> is \<^verbatim>\<open>cls._match_valid_url(url) is not None\<close>;
  \<^verbatim>\<open>TeachableIE\<close> inherits it and \<^verbatim>\<open>TeachableCourseIE\<close> overrides it.
\<close>

definition TeachableIE_suitable :: "string \<Rightarrow> bool" where
  "TeachableIE_suitable url = (match_valid_url lecture_path url \<noteq> None)"

definition TeachableCourseIE_suitable :: "string \<Rightarrow> bool" where
  "TeachableCourseIE_suitable url =
     (if TeachableIE_suitable url then False else match_valid_url course_path url \<noteq> None)"

section \<open>TeachableIE\<close>

text \<open>
  \<^verbatim>\<open>url_result(url, ie=..., url_transparent=..., video_id=..., video_title=..., **kwargs)\<close>;
  the same shape serves the lecture result and the entries of a course.
\<close>

record url_result =
  res_url :: string
  res_ie :: string
  res_url_transparent :: bool
  res_id :: "string option"
  res_title :: "string option"
  res_chapter :: "string option"
  res_chapter_number :: "nat option"

definition locked_patterns :: "rx list" where
  "locked_patterns =
    [Seqs [Lit ''class='', Cl (OneOf [dq, sq]), Lit ''lecture-contents-locked''],
     Seqs [Lit ''>'', Star (Cl Space), Lit ''Lecture contents locked''],
     Seqs [Lit ''id='', Cl (OneOf [dq, sq]), Lit ''lecture-locked''],
     Seqs [Lit ''class='', Cl (OneOf [dq, sq]), Opt (Lit ''inner-''), Lit ''lesson-locked''],
     Lit ''>LESSON LOCKED<'']"

definition has_locked_marker :: "string \<Rightarrow> bool" where
  "has_locked_marker webpage = list_ex (\<lambda>p. re_search p webpage) locked_patterns"

text \<open>A dictionary read \<^verbatim>\<open>d[k]\<close>, which raises \<^verbatim>\<open>KeyError\<close> on a missing key.\<close>

definition getitem :: "(string \<rightharpoonup> string) \<Rightarrow> string \<Rightarrow> error + string" where
  "getitem d k = (case d k of None \<Rightarrow> Inl (KeyError k) | Some v \<Rightarrow> Inr v)"

definition create_hotmart_url ::
  "ext \<Rightarrow> string \<Rightarrow> string \<Rightarrow> string \<Rightarrow> ie_state \<Rightarrow> (error + string) \<times> ie_state" where
  "create_hotmart_url X webpage video_id site st =
    (case get_element_html_by_class X ''hotmart_video_player'' webpage of
       None \<Rightarrow>
         if has_locked_marker webpage
         then (Inl (LoginRequired ''Lecture contents locked''), st)
         else (Inl (ExtractorError ''Unable to find Hotmart video container'' False), st)
     | Some hotmart_container_element \<Rightarrow>
         (case getitem (extract_attributes X hotmart_container_element) ''data-attachment-id'' of
            Inl e \<Rightarrow> (Inl e, st)
          | Inr attachment_id \<Rightarrow>
              let api = ''https://'' @ site @ ''/api/v2/hotmart/private_video'';
                  st1 = emit (FetchJson api) st in
              (case download_json X api attachment_id of
                 Inl e \<Rightarrow> (Inl e, st1)
               | Inr hotmart_video_url_data \<Rightarrow>
                   (case getitem hotmart_video_url_data ''video_id'' of
                      Inl e \<Rightarrow> (Inl e, st1)
                    | Inr vid \<Rightarrow>
                        (case getitem hotmart_video_url_data ''signature'' of
                           Inl e \<Rightarrow> (Inl e, st1)
                         | Inr sig \<Rightarrow>
                             (case getitem hotmart_video_url_data ''teachable_application_key'' of
                                Inl e \<Rightarrow> (Inl e, st1)
                              | Inr tok \<Rightarrow>
                                  (Inr (''https://player.hotmart.com/embed/'' @ vid
                                         @ ''?signature='' @ sig @ ''&token='' @ tok), st1)))))))"

text \<open>\<^verbatim>\<open>str.strip()\<close>, as \<^verbatim>\<open>strip_or_none\<close> applies it to a string.\<close>

definition strip :: "string \<Rightarrow> string" where
  "strip s = rev (dropWhile is_space (rev (dropWhile is_space s)))"

text \<open>
  The loop over \<^verbatim>\<open>re.findall(...)\<close> that fills \<open>sections\<close>: an empty cleaned title
  empties the list and leaves the loop (\<^verbatim>\<open>sections = []; break\<close>).
\<close>

fun collect_sections :: "ext \<Rightarrow> string list \<Rightarrow> string list \<Rightarrow> string list" where
  "collect_sections X [] sections = sections"
| "collect_sections X (s # ss) sections =
     (let section = strip (clean_html X s) in
      if section = [] then []
      else collect_sections X ss (sections @ [section]))"

text \<open>A list read \<^verbatim>\<open>xs[i]\<close>: a negative index counts from the end, out of range raises.\<close>

definition py_index :: "'a list \<Rightarrow> int \<Rightarrow> error + 'a" where
  "py_index xs i =
     (if 0 \<le> i \<and> i < int (length xs) then Inr (xs ! nat i)
      else if i < 0 \<and> - int (length xs) \<le> i then Inr (xs ! nat (int (length xs) + i))
      else Inl IndexError)"

text \<open>
  The chapter part of \<^verbatim>\<open>_real_extract\<close>: the pair \<open>(chapter, chapter_number)\<close>, or the
  exception of the list read.
\<close>

definition chapter_of :: "nat \<Rightarrow> string list \<Rightarrow> error + string option" where
  "chapter_of chapter_number sections =
     (if chapter_number \<le> length sections
      then map_sum id Some (py_index sections (int chapter_number - 1))
      else Inr None)"

definition chapter_info :: "ext \<Rightarrow> string \<Rightarrow> string \<Rightarrow> error + (string option \<times> nat option)" where
  "chapter_info X webpage video_id =
    (case search_section_item X video_id webpage of
       None \<Rightarrow> Inr (None, None)
     | Some section_item \<Rightarrow>
         if section_item = [] then Inr (None, None)
         else
           (case search_ss_position X section_item of
              None \<Rightarrow> Inr (None, None)
            | Some chapter_number \<Rightarrow>
                let sections = collect_sections X (findall_section_titles X webpage) [] in
                map_sum id (\<lambda>chapter. (chapter, Some chapter_number))
                  (chapter_of chapter_number sections)))"

definition TeachableIE_real_extract ::
  "ext \<Rightarrow> string \<Rightarrow> ie_state \<Rightarrow> (error + url_result) \<times> ie_state" where
  "TeachableIE_real_extract X url st =
    (case match_valid_url lecture_path url of
       None \<Rightarrow> (Inl AttributeError, st)
     | Some (site, video_id) \<Rightarrow>
         (case login X site st of
            (Inl e, st1) \<Rightarrow> (Inl e, st1)
          | (Inr _, st1) \<Rightarrow>
              let prefixed = startswith url URL_PREFIX;
                  url1 = (if prefixed then drop (length URL_PREFIX) url else url);
                  st2 = emit (Fetch url1) st1 in
              (case download_webpage X url1 of
                 Inl e \<Rightarrow> (Inl e, st2)
               | Inr webpage \<Rightarrow>
                   (case create_hotmart_url X webpage video_id site st2 of
                      (Inl e, st3) \<Rightarrow> (Inl e, st3)
                    | (Inr hotmart_url, st3) \<Rightarrow>
                        let title = og_search_title X webpage in
                        (case chapter_info X webpage video_id of
                           Inl e \<Rightarrow> (Inl e, st3)
                         | Inr (chapter, chapter_number) \<Rightarrow>
                             (Inr \<lparr>res_url = hotmart_url, res_ie = ''Generic'',
                                   res_url_transparent = True, res_id = Some video_id,
                                   res_title = title, res_chapter = chapter,
                                   res_chapter_number = chapter_number\<rparr>, st3))))))"

section \<open>TeachableCourseIE\<close>

record playlist_result =
  pl_entries :: "url_result list"
  pl_id :: string
  pl_title :: "string option"

text \<open>\<^verbatim>\<open>\d{1,2}:\d{2}\<close>\<close>

definition duration_pattern :: rx where
  "duration_pattern = Seqs [Cl Digit, Opt (Cl Digit), Lit '':'', Cl Digit, Cl Digit]"

definition is_video_item :: "string \<Rightarrow> bool" where
  "is_video_item li = (contains ''fa-youtube-play'' li \<or> re_search duration_pattern li)"

text \<open>
  The body of the loop over \<^verbatim>\<open>re.finditer(...)\<close> for one \<open>li\<close> group: \<open>None\<close> is
  \<^verbatim>\<open>continue\<close>, \<open>Some e\<close> is \<^verbatim>\<open>entries.append(e)\<close>.
\<close>

definition course_entry :: "ext \<Rightarrow> bool \<Rightarrow> string \<Rightarrow> string \<Rightarrow> url_result option" where
  "course_entry X prefixed url_base li =
     (if \<not> contains ''fa-youtube-play'' li \<and> \<not> re_search duration_pattern li then None
      else
        (case search_lecture_url X li of
           None \<Rightarrow> None
         | Some lecture_url \<Rightarrow>
             if lecture_url = [] then None
             else
               let lecture_id = search_lecture_id X lecture_url;
                   title = search_lecture_name X li;
                   entry_url = urljoin X url_base lecture_url;
                   entry_url = (if prefixed then URL_PREFIX @ entry_url else entry_url)
               in Some \<lparr>res_url = entry_url, res_ie = ''Teachable'',
                        res_url_transparent = False, res_id = lecture_id,
                        res_title = map_option (clean_html X) title,
                        res_chapter = None, res_chapter_number = None\<rparr>))"

text \<open>
  The loop itself; \<open>lis\<close> are the \<open>li\<close> groups of the matches in document order,
  \<open>entries\<close> is the list built so far.
\<close>

fun course_entries :: "ext \<Rightarrow> bool \<Rightarrow> string \<Rightarrow> string list \<Rightarrow> url_result list \<Rightarrow> url_result list" where
  "course_entries X prefixed url_base [] entries = entries"
| "course_entries X prefixed url_base (li # lis) entries =
     (case course_entry X prefixed url_base li of
        None \<Rightarrow> course_entries X prefixed url_base lis entries
      | Some e \<Rightarrow> course_entries X prefixed url_base lis (entries @ [e]))"

definition TeachableCourseIE_real_extract ::
  "ext \<Rightarrow> string \<Rightarrow> ie_state \<Rightarrow> (error + playlist_result) \<times> ie_state" where
  "TeachableCourseIE_real_extract X url st =
    (case match_valid_url course_path url of
       None \<Rightarrow> (Inl AttributeError, st)
     | Some (site, course_id) \<Rightarrow>
         (case login X site st of
            (Inl e, st1) \<Rightarrow> (Inl e, st1)
          | (Inr _, st1) \<Rightarrow>
              let prefixed = startswith url URL_PREFIX;
                  url1 = (if prefixed then drop (length URL_PREFIX) url else url);
                  st2 = emit (Fetch url1) st1 in
              (case download_webpage X url1 of
                 Inl e \<Rightarrow> (Inl e, st2)
               | Inr webpage \<Rightarrow>
                   let url_base = ''https://'' @ site @ ''/'';
                       entries = course_entries X prefixed url_base
                                   (finditer_section_items X webpage) [];
                       course_title = search_course_title X webpage
                   in (Inr \<lparr>pl_entries = entries, pl_id = course_id,
                             pl_title = course_title\<rparr>, st2))))"

section \<open>Fixtures\<close>

text \<open>
  Concrete collaborators and pages on which the properties below are evaluated. In
  \<open>fixture_ext\<close> nothing is found and every fetch fails; a fixture that needs a page or
  a credential overrides the fields concerned.
\<close>

text \<open>
  The fixtures' \<open>urljoin\<close>, for a base of the form \<open>https://host/\<close>: a path that
  carries a scheme of its own (a letter, then letters, digits, \<open>+\<close>, \<open>-\<close> or \<open>.\<close>, then
  a colon) is returned as it is, as \<^verbatim>\<open>urljoin\<close> does; a path that starts with a slash
  replaces the base's path; any other path is appended.
\<close>

definition is_scheme_char :: "char \<Rightarrow> bool" where
  "is_scheme_char c =
     (c \<in> set ''abcdefghijklmnopqrstuvwxyzABCDEFGHIJKLMNOPQRSTUVWXYZ0123456789+-.'')"

definition has_scheme :: "string \<Rightarrow> bool" where
  "has_scheme u =
     (case takeWhile (\<lambda>c. c \<noteq> CHR '':'') u of
        [] \<Rightarrow> False
      | c # cs \<Rightarrow> length (c # cs) < length u \<and> \<not> is_digit c \<and> c \<notin> set ''+-.''
                  \<and> list_all is_scheme_char (c # cs))"

definition fixture_urljoin :: "string \<Rightarrow> string \<Rightarrow> string" where
  "fixture_urljoin base path =
     (if has_scheme path then path
      else if startswith path ''/'' then butlast base @ path
      else base @ path)"

definition fixture_ext :: ext where
  "fixture_ext =
    \<lparr>get_login_info = (\<lambda>_. None),
     download_webpage_handle = (\<lambda>u. Inl (TransportError u)),
     download_webpage = (\<lambda>u. Inl (TransportError u)),
     post_webpage = (\<lambda>u _ _. Inl (TransportError u)),
     download_json = (\<lambda>u _. Inl (TransportError u)),
     hidden_inputs = (\<lambda>_. []),
     search_form_action = (\<lambda>_. None),
     urljoin = fixture_urljoin,
     get_element_by_class = (\<lambda>_ _. None),
     get_element_html_by_class = (\<lambda>_ _. None),
     extract_attributes = (\<lambda>_. Map.empty),
     clean_html = (\<lambda>s. s),
     og_search_title = (\<lambda>_. None),
     search_section_item = (\<lambda>_ _. None),
     search_ss_position = (\<lambda>_. None),
     findall_section_titles = (\<lambda>_. []),
     finditer_section_items = (\<lambda>_. []),
     search_lecture_url = (\<lambda>_. None),
     search_lecture_id = (\<lambda>_. None),
     search_lecture_name = (\<lambda>_. None),
     search_course_title = (\<lambda>_. None)\<rparr>"

definition st0 :: ie_state where
  "st0 = \<lparr>logged_in = False, trace = []\<rparr>"

definition locked_page :: string where
  "locked_page = ''<div class='' @ [dq] @ ''lecture-contents-locked'' @ [dq] @ ''>Enroll</div>''"

definition gns3_lecture_url :: string where
  "gns3_lecture_url = ''https://gns3.teachable.com/courses/423415/lectures/6885939''"



definition sign_in_page :: string where
  "sign_in_page = ''<form method='' @ [dq] @ ''post'' @ [dq] @ ''><input name='' @ [dq]
     @ ''email'' @ [dq] @ ''></form>''"

definition welcome_page :: string where
  "welcome_page = ''<a class='' @ [dq] @ ''user-signout'' @ [dq] @ '' href='' @ [dq]
     @ ''/sign_out'' @ [dq] @ ''>Log out</a>''"

definition policy_page :: string where
  "policy_page = welcome_page @ ''<button>I accept the new Privacy Policy</button>''"

definition rejected_page :: string where
  "rejected_page = ''<div>Invalid email or password.</div>''"

text \<open>
  A site that knows the user: credentials are stored for every namespace, the sign-in
  page shows no logged-in marker, and the POST is answered with \<open>response\<close>.
\<close>

definition login_fixture :: "string \<Rightarrow> ext" where
  "login_fixture response =
     fixture_ext\<lparr>get_login_info := (\<lambda>_. Some (''user@example.com'', ''secret'')),
                 download_webpage_handle := (\<lambda>u. Inr (sign_in_page, u)),
                 post_webpage := (\<lambda>_ _ _. Inr response)\<rparr>"

definition gns3 :: string where
  "gns3 = ''gns3.teachable.com''"

definition stackskills :: string where
  "stackskills = ''stackskills.com''"

text \<open>
  The reference definition of chapter-title resolution, in the words of the
  specification: the cleaned titles are scanned in document order, an empty title
  discards the titles collected so far and the scan goes on; the chapter title is the
  entry at position \<open>chapterNumber\<close> (counted from 1) of the list that survives when
  that position is within its bounds, and null otherwise.
\<close>

fun spec_surviving_titles :: "string list \<Rightarrow> string list \<Rightarrow> string list" where
  "spec_surviving_titles [] kept = kept"
| "spec_surviving_titles (t # ts) kept =
     (if t = [] then spec_surviving_titles ts [] else spec_surviving_titles ts (kept @ [t]))"

definition spec_chapter_title :: "nat \<Rightarrow> string list \<Rightarrow> string option" where
  "spec_chapter_title chapter_number titles =
     (let final = spec_surviving_titles titles [] in
      if 1 \<le> chapter_number \<and> chapter_number \<le> length final
      then Some (final ! (chapter_number - 1)) else None)"

text \<open>The cleaned form of a raw section title, \<^verbatim>\<open>strip_or_none(clean_html(s))\<close>.\<close>

definition cleaned :: "ext \<Rightarrow> string \<Rightarrow> string" where
  "cleaned X s = strip (clean_html X s)"

text \<open>
  A lecture page whose list item for the lecture gives the position \<open>n\<close> and whose
  section-title elements have the contents \<open>titles\<close>.
\<close>

definition chapter_fixture :: "nat \<Rightarrow> string list \<Rightarrow> ext" where
  "chapter_fixture n titles =
     fixture_ext\<lparr>search_section_item := (\<lambda>video_id _. Some (''<li data-lecture-id='' @ [dq]
                    @ video_id @ [dq] @ ''>Overview</li>'')),
                 search_ss_position := (\<lambda>_. Some n),
                 findall_section_titles := (\<lambda>_. titles)\<rparr>"

text \<open>
  What the course loop keeps: an item is kept when it shows a video marker and an
  anchor with a non-empty \<open>href\<close> is found in it; \<open>entry_url_of\<close> is the URL of its
  entry.
\<close>

definition has_anchor :: "ext \<Rightarrow> string \<Rightarrow> bool" where
  "has_anchor X li = (case search_lecture_url X li of None \<Rightarrow> False | Some u \<Rightarrow> u \<noteq> [])"

definition kept_item :: "ext \<Rightarrow> string \<Rightarrow> bool" where
  "kept_item X li = (is_video_item li \<and> has_anchor X li)"

definition anchor_url :: "ext \<Rightarrow> string \<Rightarrow> string" where
  "anchor_url X li = (case search_lecture_url X li of None \<Rightarrow> [] | Some u \<Rightarrow> u)"

definition entry_url_of :: "ext \<Rightarrow> bool \<Rightarrow> string \<Rightarrow> string \<Rightarrow> string" where
  "entry_url_of X prefixed url_base li =
     (if prefixed then URL_PREFIX else []) @ urljoin X url_base (anchor_url X li)"

text \<open>
  A course page for the fixtures: list items with or without an anchor, a play icon or
  a duration. The anchor and the lecture id are read by simple scanners that agree
  with the source's patterns on these items.
\<close>

fun after :: "string \<Rightarrow> string \<Rightarrow> string option" where
  "after p [] = (if p = [] then Some [] else None)"
| "after p (c # cs) = (if startswith (c # cs) p then Some (drop (length p) (c # cs)) else after p cs)"

definition fixture_search_lecture_url :: "string \<Rightarrow> string option" where
  "fixture_search_lecture_url li =
     (case after (''href='' @ [dq]) li of
        None \<Rightarrow> None
      | Some r \<Rightarrow> Some (takeWhile (\<lambda>c. c \<noteq> dq) r))"

definition fixture_search_lecture_id :: "string \<Rightarrow> string option" where
  "fixture_search_lecture_id u =
     (case after ''/lectures/'' u of
        None \<Rightarrow> None
      | Some r \<Rightarrow> if takeWhile is_digit r = [] then None else Some (takeWhile is_digit r))"

definition li_element :: "string \<Rightarrow> string" where
  "li_element inner = ''<li class='' @ [dq] @ ''section-item'' @ [dq] @ ''>'' @ inner @ ''</li>''"

definition a_element :: "string \<Rightarrow> string \<Rightarrow> string" where
  "a_element href inner = ''<a href='' @ [dq] @ href @ [dq] @ ''>'' @ inner @ ''</a>''"

definition play_icon :: string where
  "play_icon = ''<i class='' @ [dq] @ ''fa fa-youtube-play'' @ [dq] @ ''></i>''"

definition item_intro :: string where
  "item_intro = li_element (a_element ''/courses/423415/lectures/1'' (play_icon @ '' Intro''))"
definition item_quiz :: string where
  "item_quiz = li_element (a_element ''/courses/423415/lectures/2'' '' Quiz'')"
definition item_setup :: string where
  "item_setup = li_element (a_element ''/courses/423415/lectures/3'' '' Setup (12:30)'')"
definition item_notes :: string where
  "item_notes = li_element (a_element ''/courses/423415/lectures/4'' '' Notes'')"
definition item_soon :: string where
  "item_soon = li_element (play_icon @ '' Coming soon'')"
definition item_outro :: string where
  "item_outro = li_element (a_element ''/courses/423415/lectures/5'' (play_icon @ '' Outro (1:05)''))"

definition course_fixture :: "string list \<Rightarrow> ext" where
  "course_fixture items =
     fixture_ext\<lparr>download_webpage := (\<lambda>_. Inr (concat items)),
                 finditer_section_items := (\<lambda>_. items),
                 search_lecture_url := fixture_search_lecture_url,
                 search_lecture_id := fixture_search_lecture_id\<rparr>"

definition fixture_entry :: "string \<Rightarrow> string \<Rightarrow> url_result" where
  "fixture_entry u i =
     \<lparr>res_url = u, res_ie = ''Teachable'', res_url_transparent = False, res_id = Some i,
      res_title = None, res_chapter = None, res_chapter_number = None\<rparr>"

definition complete_items :: "string list" where
  "complete_items = [item_intro, item_quiz, item_setup, item_notes, item_outro]"

definition items_with_gap :: "string list" where
  "items_with_gap = [item_intro, item_quiz, item_setup, item_notes, item_soon]"

definition vrdev_course_url :: string where
  "vrdev_course_url = ''teachable:https://learn.vrdev.school/p/gear-vr-developer-mini''"

definition vrdev_playlist :: playlist_result where
  "vrdev_playlist =
     \<lparr>pl_entries =
        [fixture_entry ''teachable:https://learn.vrdev.school/courses/423415/lectures/1'' ''1'',
         fixture_entry ''teachable:https://learn.vrdev.school/courses/423415/lectures/3'' ''3'',
         fixture_entry ''teachable:https://learn.vrdev.school/courses/423415/lectures/5'' ''5''],
      pl_id = ''gear-vr-developer-mini'', pl_title = None\<rparr>"

definition gns3_course_url :: string where
  "gns3_course_url = ''https://gns3.teachable.com/courses/enrolled/423415''"

definition gns3_playlist :: playlist_result where
  "gns3_playlist =
     \<lparr>pl_entries =
        [fixture_entry ''https://gns3.teachable.com/courses/423415/lectures/1'' ''1'',
         fixture_entry ''https://gns3.teachable.com/courses/423415/lectures/3'' ''3'',
         fixture_entry ''https://gns3.teachable.com/courses/423415/lectures/5'' ''5''],
      pl_id = ''423415'', pl_title = None\<rparr>"

text \<open>A course page with an anchor whose \<open>href\<close> already carries the escape prefix.\<close>

definition item_escaped :: string where
  "item_escaped = li_element (a_element ''teachable:https://gns3.teachable.com/courses/423415/lectures/7''
     (play_icon @ '' Bonus''))"

definition escaped_items :: "string list" where
  "escaped_items = [item_intro, item_escaped]"

definition escaped_playlist :: playlist_result where
  "escaped_playlist =
     \<lparr>pl_entries =
        [fixture_entry ''https://gns3.teachable.com/courses/423415/lectures/1'' ''1'',
         fixture_entry ''teachable:https://gns3.teachable.com/courses/423415/lectures/7'' ''7''],
      pl_id = ''423415'', pl_title = None\<rparr>"

section \<open>Properties\<close>

subsection \<open>URL classification\<close>

text \<open>
  C5. Lecture and Course classification exclude each other: \<open>TeachableCourseIE.suitable\<close>
  answers False on every URL that \<open>TeachableIE.suitable\<close> accepts, so no URL is accepted
  by both.
\<close>

theorem suitable_exclusive:
  "(TeachableIE_suitable url \<longrightarrow> \<not> TeachableCourseIE_suitable url)
   \<and> \<not> (TeachableIE_suitable url \<and> TeachableCourseIE_suitable url)"
  by (simp add: TeachableCourseIE_suitable_def)

text \<open>
  A lecture URL of a known site: the Course pattern alone matches it (with the slug as
  its id), and the Course extractor still declines it.
\<close>

theorem suitable_exclusive_witness:
  "TeachableIE_suitable gns3_lecture_url
   \<and> match_valid_url course_path gns3_lecture_url = Some (''gns3.teachable.com'', ''423415'')
   \<and> \<not> TeachableCourseIE_suitable gns3_lecture_url"
proof -
  have a: "TeachableIE_suitable gns3_lecture_url"
    by code_simp
  have b: "match_valid_url course_path gns3_lecture_url = Some (''gns3.teachable.com'', ''423415'')"
    by code_simp
  from a b suitable_exclusive [of gns3_lecture_url]
  show ?thesis by blast
qed

subsection \<open>A lecture page without the video container\<close>

lemma locked_page_marker: "has_locked_marker locked_page"
  by code_simp

text \<open>
  C3. When the page has no \<open>hotmart_video_player\<close> element, \<open>_create_hotmart_url\<close> raises
  the login-required error if one of the locked-content patterns is found in the page,
  and the generic extraction error otherwise; with a marker present the error is never
  the generic one. It fetches nothing on the way.
\<close>

theorem hotmart_container_absent:
  assumes "get_element_html_by_class X ''hotmart_video_player'' webpage = None"
  shows "create_hotmart_url X webpage video_id site st =
           (if has_locked_marker webpage
            then (Inl (LoginRequired ''Lecture contents locked''), st)
            else (Inl (ExtractorError ''Unable to find Hotmart video container'' False), st))"
  using assms by (simp add: create_hotmart_url_def)

theorem hotmart_container_absent_witness:
  "get_element_html_by_class fixture_ext ''hotmart_video_player'' locked_page = None
   \<and> create_hotmart_url fixture_ext locked_page ''6885939'' ''gns3.teachable.com'' st0
       = (Inl (LoginRequired ''Lecture contents locked''), st0)"
proof -
  have h: "get_element_html_by_class fixture_ext ''hotmart_video_player'' locked_page = None"
    by (simp add: fixture_ext_def)
  show ?thesis
    using h hotmart_container_absent [OF h, of "''6885939''" "''gns3.teachable.com''" st0]
      locked_page_marker
    by simp
qed

subsection \<open>Login\<close>

lemma login_noop: "logged_in st \<Longrightarrow> login X site st = (Inr (), st)"
  by (simp add: login_def)

text \<open>
  C4. Whenever the POST is reached and its response contains the privacy-policy prompt,
  \<open>_login\<close> raises the privacy-policy error and leaves the flag unset, whatever else
  the response contains: the prompt is tested before the logged-in markers and before
  the flash-error element.
\<close>

theorem privacy_policy_first:
  assumes "\<not> logged_in st"
    and "get_login_info X (SITES_get site) = Some (username, password)"
    and "download_webpage_handle X (sign_in_url site) = Inr (login_page, login_url)"
    and "\<not> is_logged login_page"
    and "post_webpage X (post_url_of X login_page login_url)
           (login_form_of X login_page username password) login_url = Inr response"
    and "contains ''>I accept the new Privacy Policy<'' response"
  shows "fst (login X site st) = Inl (privacy_policy_error site)
         \<and> \<not> logged_in (snd (login X site st))"
  using assms by (simp add: login_def Let_def emit_def)

text \<open>The response of the witness shows the logged-in markers as well as the prompt.\<close>

theorem privacy_policy_first_witness:
  "is_logged policy_page
   \<and> fst (login (login_fixture policy_page) gns3 st0) = Inl (privacy_policy_error gns3)
   \<and> \<not> logged_in (snd (login (login_fixture policy_page) gns3 st0))"
proof -
  have h1: "\<not> logged_in st0" by code_simp
  have h2: "get_login_info (login_fixture policy_page) (SITES_get gns3)
              = Some (''user@example.com'', ''secret'')" by code_simp
  have h3: "download_webpage_handle (login_fixture policy_page) (sign_in_url gns3)
              = Inr (sign_in_page, sign_in_url gns3)" by code_simp
  have h4: "\<not> is_logged sign_in_page" by code_simp
  have h5: "post_webpage (login_fixture policy_page)
              (post_url_of (login_fixture policy_page) sign_in_page (sign_in_url gns3))
              (login_form_of (login_fixture policy_page) sign_in_page ''user@example.com'' ''secret'')
              (sign_in_url gns3) = Inr policy_page" by code_simp
  have h6: "contains ''>I accept the new Privacy Policy<'' policy_page" by code_simp
  have h7: "is_logged policy_page" by code_simp
  from privacy_policy_first [OF h1 h2 h3 h4 h5 h6] h7 show ?thesis by simp
qed



lemma login_error_flag:
  "fst (login X site st) = Inl e \<Longrightarrow> \<not> logged_in st \<and> \<not> logged_in (snd (login X site st))"
  by (auto simp add: login_def Let_def emit_def
      split: option.splits sum.splits prod.splits if_splits)

lemma login_no_credentials:
  "\<not> logged_in st \<Longrightarrow> get_login_info X (SITES_get site) = None \<Longrightarrow>
   login X site st = (Inr (), emit (CredentialLookup (SITES_get site)) st)"
  by (simp add: login_def Let_def)

lemma login_sets_flag:
  assumes "\<not> logged_in st" and "logged_in (snd (login X site st))"
  shows "\<exists>username password login_page login_url.
           get_login_info X (SITES_get site) = Some (username, password)
           \<and> download_webpage_handle X (sign_in_url site) = Inr (login_page, login_url)
           \<and> (is_logged login_page
                \<or> (\<exists>response.
                      post_webpage X (post_url_of X login_page login_url)
                        (login_form_of X login_page username password) login_url = Inr response
                      \<and> is_logged response))"
  using assms
  by (auto simp add: login_def Let_def emit_def
      split: option.splits sum.splits prod.splits if_splits)

text \<open>
  C10. (1) A call that turns the flag from false to true has fetched the sign-in page
  with stored credentials and has seen the logged-in markers in that page or in the
  response to its POST. (2) With no stored credentials the call returns normally after
  the lookup alone, without any fetch and with the flag still false, and the next call
  does the lookup again. (3) A call that raises had the flag false and leaves it false.
\<close>

theorem flag_only_after_markers:
  "(\<not> logged_in st \<and> logged_in (snd (login X site st)) \<longrightarrow>
      (\<exists>username password login_page login_url.
           get_login_info X (SITES_get site) = Some (username, password)
           \<and> download_webpage_handle X (sign_in_url site) = Inr (login_page, login_url)
           \<and> (is_logged login_page
                \<or> (\<exists>response.
                      post_webpage X (post_url_of X login_page login_url)
                        (login_form_of X login_page username password) login_url = Inr response
                      \<and> is_logged response))))
   \<and> (\<not> logged_in st \<and> get_login_info X (SITES_get site) = None \<longrightarrow>
        login X site st = (Inr (), emit (CredentialLookup (SITES_get site)) st)
        \<and> login X site (snd (login X site st))
            = (Inr (), emit (CredentialLookup (SITES_get site))
                         (emit (CredentialLookup (SITES_get site)) st)))
   \<and> (\<forall>e. fst (login X site st) = Inl e \<longrightarrow>
          \<not> logged_in st \<and> \<not> logged_in (snd (login X site st)))"
proof (intro conjI impI allI)
  assume "\<not> logged_in st \<and> logged_in (snd (login X site st))"
  then show "\<exists>username password login_page login_url.
           get_login_info X (SITES_get site) = Some (username, password)
           \<and> download_webpage_handle X (sign_in_url site) = Inr (login_page, login_url)
           \<and> (is_logged login_page
                \<or> (\<exists>response.
                      post_webpage X (post_url_of X login_page login_url)
                        (login_form_of X login_page username password) login_url = Inr response
                      \<and> is_logged response))"
    using login_sets_flag by blast
next
  assume h: "\<not> logged_in st \<and> get_login_info X (SITES_get site) = None"
  then show "login X site st = (Inr (), emit (CredentialLookup (SITES_get site)) st)"
    by (simp add: login_no_credentials)
  have "\<not> logged_in (emit (CredentialLookup (SITES_get site)) st)"
    using h by (simp add: emit_def)
  with h show "login X site (snd (login X site st))
            = (Inr (), emit (CredentialLookup (SITES_get site))
                         (emit (CredentialLookup (SITES_get site)) st))"
    by (simp add: login_no_credentials)
next
  fix e assume "fst (login X site st) = Inl e"
  then show "\<not> logged_in st" "\<not> logged_in (snd (login X site st))"
    using login_error_flag by blast+
qed

text \<open>
  The three parts at concrete sites: a login that succeeds through the POST, a site
  without stored credentials called twice, and a rejected login.
\<close>

theorem flag_only_after_markers_witness:
  "(logged_in (snd (login (login_fixture welcome_page) gns3 st0)) \<and> is_logged welcome_page)
   \<and> login fixture_ext gns3 (snd (login fixture_ext gns3 st0))
       = (Inr (), \<lparr>logged_in = False,
                   trace = [CredentialLookup ''gns3'', CredentialLookup ''gns3'']\<rparr>)
   \<and> (fst (login (login_fixture rejected_page) gns3 st0)
         = Inl (ExtractorError ''Unable to log in'' False)
       \<and> \<not> logged_in (snd (login (login_fixture rejected_page) gns3 st0)))"
proof -
  have a1: "\<not> logged_in st0 \<and> logged_in (snd (login (login_fixture welcome_page) gns3 st0))"
    by code_simp
  have a2: "is_logged welcome_page" by code_simp
  have b1: "\<not> logged_in st0 \<and> get_login_info fixture_ext (SITES_get gns3) = None"
    by code_simp
  have b2: "emit (CredentialLookup (SITES_get gns3)) (emit (CredentialLookup (SITES_get gns3)) st0)
              = \<lparr>logged_in = False,
                 trace = [CredentialLookup ''gns3'', CredentialLookup ''gns3'']\<rparr>"
    by code_simp
  have c1: "fst (login (login_fixture rejected_page) gns3 st0)
              = Inl (ExtractorError ''Unable to log in'' False)"
    by code_simp
  from flag_only_after_markers [of st0 "login_fixture welcome_page" gns3] a1
  have "\<exists>username password login_page login_url.
          get_login_info (login_fixture welcome_page) (SITES_get gns3) = Some (username, password)"
    by blast
  moreover from flag_only_after_markers [of st0 fixture_ext gns3] b1
  have "login fixture_ext gns3 (snd (login fixture_ext gns3 st0))
       = (Inr (), emit (CredentialLookup (SITES_get gns3))
                    (emit (CredentialLookup (SITES_get gns3)) st0))"
    by blast
  then have "login fixture_ext gns3 (snd (login fixture_ext gns3 st0))
       = (Inr (), \<lparr>logged_in = False,
                   trace = [CredentialLookup ''gns3'', CredentialLookup ''gns3'']\<rparr>)"
    by (simp only: b2)
  moreover from flag_only_after_markers [of st0 "login_fixture rejected_page" gns3] c1
  have "\<not> logged_in (snd (login (login_fixture rejected_page) gns3 st0))"
    by blast
  ultimately show ?thesis using a1 a2 c1 by (simp only: simp_thms)
qed







text \<open>
  C2, as the code has it. The instance has one flag, and \<open>_login\<close> reads it before it
  looks at the site: once a login to site \<open>a\<close> has set the flag, a login to any site
  \<open>b\<close> on the same instance returns at once, with no lookup and no fetch for \<open>b\<close>.
  \<open>_real_initialize\<close> clears the flag.
\<close>

theorem login_flag_shared_by_sites:
  "(logged_in (snd (login X a st)) \<longrightarrow>
      login X b (snd (login X a st)) = (Inr (), snd (login X a st)))
   \<and> \<not> logged_in (real_initialize st)"
  by (simp add: login_noop real_initialize_def)

theorem login_flag_shared_by_sites_witness:
  "gns3 \<noteq> stackskills
   \<and> logged_in (snd (login (login_fixture welcome_page) gns3 (real_initialize st0)))
   \<and> login (login_fixture welcome_page) stackskills
        (snd (login (login_fixture welcome_page) gns3 (real_initialize st0)))
       = (Inr (), snd (login (login_fixture welcome_page) gns3 (real_initialize st0)))"
proof -
  have d: "gns3 \<noteq> stackskills" by code_simp
  have h: "logged_in (snd (login (login_fixture welcome_page) gns3 (real_initialize st0)))"
    by code_simp
  from login_flag_shared_by_sites [of "login_fixture welcome_page" gns3 "real_initialize st0"
      stackskills] d h
  show ?thesis by blast
qed

text \<open>
  The claim C2 as stated fails: after a successful login to one site, the login to
  another site looks up no credentials and fetches no sign-in page, although on a fresh
  instance it would.
\<close>

theorem login_per_site_counterexample:
  "gns3 \<noteq> stackskills
   \<and> fst (login (login_fixture welcome_page) gns3 st0) = Inr ()
   \<and> CredentialLookup (SITES_get stackskills)
       \<notin> set (trace (snd (login (login_fixture welcome_page) stackskills
                              (snd (login (login_fixture welcome_page) gns3 st0)))))
   \<and> Fetch (sign_in_url stackskills)
       \<notin> set (trace (snd (login (login_fixture welcome_page) stackskills
                              (snd (login (login_fixture welcome_page) gns3 st0)))))
   \<and> CredentialLookup (SITES_get stackskills)
       \<in> set (trace (snd (login (login_fixture welcome_page) stackskills st0)))
   \<and> Fetch (sign_in_url stackskills)
       \<in> set (trace (snd (login (login_fixture welcome_page) stackskills st0)))"
  by code_simp


subsection \<open>Chapter titles\<close>

lemma collect_sections_eq:
  "collect_sections X raw acc =
     (if list_ex (\<lambda>s. cleaned X s = []) raw then [] else acc @ map (cleaned X) raw)"
  by (induction raw arbitrary: acc) (simp_all add: cleaned_def Let_def)

lemma chapter_of_in_bounds:
  "1 \<le> n \<Longrightarrow> n \<le> length sections \<Longrightarrow> chapter_of n sections = Inr (Some (sections ! (n - 1)))"
  by (simp add: chapter_of_def py_index_def nat_diff_distrib')

lemma chapter_of_beyond:
  "length sections < n \<Longrightarrow> chapter_of n sections = Inr None"
  by (simp add: chapter_of_def)

lemma chapter_of_collect:
  assumes "1 \<le> n"
  shows "chapter_of n (collect_sections X raw []) =
           Inr (if list_ex (\<lambda>s. cleaned X s = []) raw then None
                else if n \<le> length raw then Some (cleaned X (raw ! (n - 1)))
                else None)"
proof (cases "list_ex (\<lambda>s. cleaned X s = []) raw")
  case True
  then have "collect_sections X raw [] = []" by (simp add: collect_sections_eq)
  with assms show ?thesis using True by (simp add: chapter_of_beyond)
next
  case False
  then have c: "collect_sections X raw [] = map (cleaned X) raw"
    by (simp add: collect_sections_eq)
  show ?thesis
  proof (cases "n \<le> length raw")
    case True
    with assms have "n - 1 < length raw" by simp
    with assms True False c show ?thesis by (simp add: chapter_of_in_bounds)
  next
    case n: False
    with False c show ?thesis by (simp add: chapter_of_beyond)
  qed
qed

text \<open>
  C1, as the code has it. For a lecture page whose list item gives a chapter number
  \<open>n \<ge> 1\<close>: if the cleaned text of any section title is empty, the loop empties the
  list and stops, so the chapter title is null whatever follows; otherwise the chapter
  title is the cleaned text of the \<open>n\<close>-th section title when there are at least \<open>n\<close>
  of them, and null when there are fewer. The chapter number is returned as it was read.
\<close>

theorem chapter_title_resolution:
  assumes "search_section_item X video_id webpage = Some section_item"
    and "section_item \<noteq> []"
    and "search_ss_position X section_item = Some n"
    and "1 \<le> n"
  shows "chapter_info X webpage video_id =
           Inr (if list_ex (\<lambda>s. cleaned X s = []) (findall_section_titles X webpage) then None
                else if n \<le> length (findall_section_titles X webpage)
                     then Some (cleaned X (findall_section_titles X webpage ! (n - 1)))
                else None,
                Some n)"
  using assms by (simp add: chapter_info_def Let_def chapter_of_collect)

text \<open>
  The fixture of the specification, titles \<open>Welcome\<close>, an empty one and \<open>Advanced\<close> with
  chapter number 3, gives no chapter title.
\<close>

theorem chapter_title_resolution_witness:
  "chapter_info (chapter_fixture 3 [''Welcome'', '' '', ''Advanced'']) '''' ''6885939''
     = Inr (None, Some 3)"
proof -
  let ?X = "chapter_fixture 3 [''Welcome'', '' '', ''Advanced'']"
  let ?item = "''<li data-lecture-id='' @ [dq] @ ''6885939'' @ [dq] @ ''>Overview</li>''"
  have h1: "search_section_item ?X ''6885939'' '''' = Some ?item" by code_simp
  have h2: "?item \<noteq> []" by simp
  have h3: "search_ss_position ?X ?item = Some 3" by code_simp
  have h4: "(1::nat) \<le> 3" by simp
  have e: "list_ex (\<lambda>s. cleaned ?X s = []) (findall_section_titles ?X '''')" by code_simp
  from chapter_title_resolution [OF h1 h2 h3 h4] e show ?thesis by simp
qed

text \<open>
  The claim C1 as stated fails: on the same titles with chapter number 1 the reference
  definition answers \<open>Advanced\<close>, the title that follows the empty one, and the code
  answers null.
\<close>

theorem chapter_restart_counterexample:
  "chapter_of 1 (collect_sections fixture_ext [''Welcome'', '' '', ''Advanced''] []) = Inr None
   \<and> spec_chapter_title 1 (map (cleaned fixture_ext) [''Welcome'', '' '', ''Advanced''])
       = Some ''Advanced''"
  by code_simp


subsection \<open>Course playlists\<close>

lemma course_entries_eq:
  "course_entries X p b lis acc = acc @ List.map_filter (course_entry X p b) lis"
  by (induction lis arbitrary: acc) (simp_all add: map_filter_simps split: option.splits)

lemma course_entry_None_iff:
  "course_entry X p b li = None \<longleftrightarrow> \<not> kept_item X li"
  by (simp add: course_entry_def kept_item_def has_anchor_def is_video_item_def Let_def
      split: option.splits)

lemma course_entry_Some:
  assumes "course_entry X p b li = Some e"
  shows "kept_item X li \<and> res_url e = entry_url_of X p b li"
  using assms
  by (auto simp add: course_entry_def kept_item_def has_anchor_def is_video_item_def Let_def
      entry_url_of_def anchor_url_def split: option.splits if_splits)

lemma map_filter_course_entry:
  "map res_url (List.map_filter (course_entry X p b) lis)
     = map (entry_url_of X p b) (filter (kept_item X) lis)"
proof (induction lis)
  case Nil
  show ?case by (simp add: map_filter_simps)
next
  case (Cons li lis)
  show ?case
  proof (cases "course_entry X p b li")
    case None
    then have "\<not> kept_item X li" by (simp add: course_entry_None_iff)
    with None Cons show ?thesis by (simp add: map_filter_simps)
  next
    case (Some e)
    then have "kept_item X li" "res_url e = entry_url_of X p b li"
      using course_entry_Some by blast+
    with Some Cons show ?thesis by (simp add: map_filter_simps)
  qed
qed

lemma course_entries_urls:
  "map res_url (course_entries X p b lis []) = map (entry_url_of X p b) (filter (kept_item X) lis)"
  by (simp add: course_entries_eq map_filter_course_entry)

lemma course_entries_length:
  "length (course_entries X p b lis []) = length (filter (kept_item X) lis)"
  using course_entries_urls [of X p b lis] by (metis length_map)

text \<open>
  C7, as the code has it. The loop keeps an item exactly when it contains the play-icon
  marker \<open>fa-youtube-play\<close> or a match of \<^verbatim>\<open>\d{1,2}:\d{2}\<close> (a digit, a colon and
  two digits, after at most one more digit), and an anchor with a non-empty \<open>href\<close>
  is found in it; every other item is skipped. The entries are those of the kept items,
  one each, in document order. Hence, when every item with a video marker has an anchor,
  the number of entries is the number of items with a video marker.
\<close>

theorem course_entries_kept:
  "map res_url (course_entries X p b lis []) = map (entry_url_of X p b) (filter (kept_item X) lis)
   \<and> length (course_entries X p b lis []) = length (filter (kept_item X) lis)
   \<and> ((\<forall>li \<in> set lis. is_video_item li \<longrightarrow> has_anchor X li) \<longrightarrow>
        length (course_entries X p b lis []) = length (filter is_video_item lis))"
proof (intro conjI impI)
  show "map res_url (course_entries X p b lis []) = map (entry_url_of X p b) (filter (kept_item X) lis)"
    by (rule course_entries_urls)
  show "length (course_entries X p b lis []) = length (filter (kept_item X) lis)"
    by (rule course_entries_length)
  assume "\<forall>li \<in> set lis. is_video_item li \<longrightarrow> has_anchor X li"
  then have "filter (kept_item X) lis = filter is_video_item lis"
    by (intro filter_cong) (auto simp add: kept_item_def)
  then show "length (course_entries X p b lis []) = length (filter is_video_item lis)"
    by (simp add: course_entries_length)
qed

text \<open>
  Five section items of which two lack both markers, every other one with an anchor:
  three entries, in document order.
\<close>

theorem course_entries_kept_witness:
  "length complete_items = 5
   \<and> length (filter (\<lambda>li. \<not> is_video_item li) complete_items) = 2
   \<and> map res_url (course_entries (course_fixture complete_items) False
                     ''https://gns3.teachable.com/'' complete_items [])
       = [''https://gns3.teachable.com/courses/423415/lectures/1'',
          ''https://gns3.teachable.com/courses/423415/lectures/3'',
          ''https://gns3.teachable.com/courses/423415/lectures/5'']
   \<and> length (course_entries (course_fixture complete_items) False
                ''https://gns3.teachable.com/'' complete_items []) = 3"
proof -
  let ?X = "course_fixture complete_items"
  have a: "length complete_items = 5" by code_simp
  have b: "length (filter (\<lambda>li. \<not> is_video_item li) complete_items) = 2" by code_simp
  have h: "\<forall>li \<in> set complete_items. is_video_item li \<longrightarrow> has_anchor ?X li" by code_simp
  have c: "length (filter is_video_item complete_items) = 3" by code_simp
  have d: "map (entry_url_of ?X False ''https://gns3.teachable.com/'') (filter (kept_item ?X) complete_items)
       = [''https://gns3.teachable.com/courses/423415/lectures/1'',
          ''https://gns3.teachable.com/courses/423415/lectures/3'',
          ''https://gns3.teachable.com/courses/423415/lectures/5'']" by code_simp
  note k = course_entries_kept [of ?X False "''https://gns3.teachable.com/''" complete_items]
  from k have u: "map res_url (course_entries ?X False ''https://gns3.teachable.com/'' complete_items [])
      = map (entry_url_of ?X False ''https://gns3.teachable.com/'') (filter (kept_item ?X) complete_items)"
    by (rule conjunct1)
  from k h have l: "length (course_entries ?X False ''https://gns3.teachable.com/'' complete_items [])
      = length (filter is_video_item complete_items)"
    by (elim conjE impE) assumption+
  from u have u': "map res_url (course_entries ?X False ''https://gns3.teachable.com/'' complete_items [])
       = [''https://gns3.teachable.com/courses/423415/lectures/1'',
          ''https://gns3.teachable.com/courses/423415/lectures/3'',
          ''https://gns3.teachable.com/courses/423415/lectures/5'']"
    by (simp only: d)
  from l have l': "length (course_entries ?X False ''https://gns3.teachable.com/'' complete_items []) = 3"
    by (simp only: c)
  from a b u' l' show ?thesis by (intro conjI)
qed

text \<open>
  The claim C7 as stated fails: of five section items two lack both markers, and the
  playlist still has fewer than three entries, because one of the three others has a
  play icon and no anchor.
\<close>

theorem course_filter_counterexample:
  "length items_with_gap = 5
   \<and> length (filter (\<lambda>li. \<not> (contains ''fa-youtube-play'' li \<or> re_search duration_pattern li))
        items_with_gap) = 2
   \<and> length (course_entries (course_fixture items_with_gap) False
                ''https://gns3.teachable.com/'' items_with_gap []) \<noteq> 3"
  by code_simp

text \<open>
  C9. An item that passes the play-icon/duration test and in which no anchor with a
  non-empty \<open>href\<close> is found adds no entry: the loop behaves as if the item were not
  in the page. So the playlist is never longer than the number of items with a video
  marker, and it can be shorter.
\<close>

theorem anchorless_item_skipped:
  "(is_video_item li \<and> \<not> has_anchor X li \<longrightarrow>
      course_entry X p b li = None
      \<and> course_entries X p b (lis1 @ li # lis2) acc = course_entries X p b (lis1 @ lis2) acc)
   \<and> length (course_entries X p b lis []) \<le> length (filter is_video_item lis)"
proof (intro conjI impI)
  assume h: "is_video_item li \<and> \<not> has_anchor X li"
  then show n: "course_entry X p b li = None"
    by (simp add: course_entry_None_iff kept_item_def)
  then show "course_entries X p b (lis1 @ li # lis2) acc = course_entries X p b (lis1 @ lis2) acc"
    by (simp add: course_entries_eq map_filter_def)
next
  have "length (filter (kept_item X) lis) \<le> length (filter is_video_item lis)"
    by (induction lis) (auto simp add: kept_item_def)
  then show "length (course_entries X p b lis []) \<le> length (filter is_video_item lis)"
    by (simp add: course_entries_length)
qed

theorem anchorless_item_skipped_witness:
  "is_video_item item_soon
   \<and> course_entry (course_fixture items_with_gap) False ''https://gns3.teachable.com/'' item_soon = None
   \<and> length (course_entries (course_fixture items_with_gap) False
                ''https://gns3.teachable.com/'' items_with_gap [])
       < length (filter is_video_item items_with_gap)"
proof -
  let ?X = "course_fixture items_with_gap"
  have h: "is_video_item item_soon \<and> \<not> has_anchor ?X item_soon" by code_simp
  have l: "length (course_entries ?X False ''https://gns3.teachable.com/'' items_with_gap [])
             < length (filter is_video_item items_with_gap)" by code_simp
  from anchorless_item_skipped [of item_soon ?X False "''https://gns3.teachable.com/''"] h l
  show ?thesis by blast
qed


lemma startswith_append: "startswith (p @ s) p"
  by (simp add: startswith_def)

lemma real_extract_page:
  assumes "fst (TeachableCourseIE_real_extract X url st) = Inr pl"
  shows "\<exists>site course_id webpage.
           match_valid_url course_path url = Some (site, course_id)
           \<and> download_webpage X (if startswith url URL_PREFIX
                                   then drop (length URL_PREFIX) url else url) = Inr webpage
           \<and> pl_entries pl = course_entries X (startswith url URL_PREFIX)
                (''https://'' @ site @ ''/'') (finditer_section_items X webpage) []"
  using assms
  by (auto simp add: TeachableCourseIE_real_extract_def Let_def
      split: option.splits sum.splits prod.splits if_splits)

text \<open>
  C8, as the code has it. The entries of a course playlist are those of the kept items
  of the fetched page, in document order, and the URL of each is \<open>urljoin\<close> of the base
  URL \<open>https://<site>/\<close>, for the site read from the course URL, and the \<open>href\<close> of
  the item's anchor, with the escape prefix put in front exactly when the course URL
  carries it. So for a prefixed course URL every entry's URL starts with the prefix.
  For an unprefixed course URL the joined URL is emitted with nothing in front, and an
  entry's URL starts with the prefix only if the joined URL of a kept item does.
\<close>

theorem prefix_round_trip:
  assumes "fst (TeachableCourseIE_real_extract X url st) = Inr pl"
  shows "\<exists>site course_id webpage.
      match_valid_url course_path url = Some (site, course_id)
      \<and> download_webpage X (if startswith url URL_PREFIX
                              then drop (length URL_PREFIX) url else url) = Inr webpage
      \<and> map res_url (pl_entries pl)
          = map (entry_url_of X (startswith url URL_PREFIX) (''https://'' @ site @ ''/''))
              (filter (kept_item X) (finditer_section_items X webpage))
      \<and> (startswith url URL_PREFIX \<longrightarrow>
            list_all (\<lambda>e. startswith (res_url e) URL_PREFIX) (pl_entries pl))
      \<and> (\<not> startswith url URL_PREFIX \<longrightarrow>
            map res_url (pl_entries pl)
              = map (\<lambda>li. urljoin X (''https://'' @ site @ ''/'') (anchor_url X li))
                  (filter (kept_item X) (finditer_section_items X webpage)))
      \<and> (\<not> startswith url URL_PREFIX \<longrightarrow>
            (\<forall>e \<in> set (pl_entries pl). startswith (res_url e) URL_PREFIX \<longrightarrow>
               (\<exists>li \<in> set (finditer_section_items X webpage). kept_item X li
                  \<and> startswith (urljoin X (''https://'' @ site @ ''/'') (anchor_url X li))
                       URL_PREFIX)))"
proof -
  from real_extract_page [OF assms]
  obtain site course_id webpage where
    m: "match_valid_url course_path url = Some (site, course_id)" and
    d: "download_webpage X (if startswith url URL_PREFIX
                            then drop (length URL_PREFIX) url else url) = Inr webpage" and
    p: "pl_entries pl = course_entries X (startswith url URL_PREFIX)
          (''https://'' @ site @ ''/'') (finditer_section_items X webpage) []"
    by blast
  let ?base = "''https://'' @ site @ ''/''"
  let ?kept = "filter (kept_item X) (finditer_section_items X webpage)"
  have u: "map res_url (pl_entries pl)
             = map (entry_url_of X (startswith url URL_PREFIX) ?base) ?kept"
    by (simp add: p course_entries_urls)
  have a: "startswith url URL_PREFIX \<longrightarrow>
             list_all (\<lambda>e. startswith (res_url e) URL_PREFIX) (pl_entries pl)"
  proof
    assume pre: "startswith url URL_PREFIX"
    have "list_all (\<lambda>v. startswith v URL_PREFIX) (map res_url (pl_entries pl))"
      unfolding u using pre
      by (simp add: list_all_iff entry_url_of_def startswith_append)
    then show "list_all (\<lambda>e. startswith (res_url e) URL_PREFIX) (pl_entries pl)"
      by (simp add: list_all_iff)
  qed
  have b: "\<not> startswith url URL_PREFIX \<longrightarrow>
             map res_url (pl_entries pl) = map (\<lambda>li. urljoin X ?base (anchor_url X li)) ?kept"
    using u by (simp add: entry_url_of_def)
  have c: "\<not> startswith url URL_PREFIX \<longrightarrow>
            (\<forall>e \<in> set (pl_entries pl). startswith (res_url e) URL_PREFIX \<longrightarrow>
               (\<exists>li \<in> set (finditer_section_items X webpage). kept_item X li
                  \<and> startswith (urljoin X ?base (anchor_url X li)) URL_PREFIX))"
  proof (intro impI ballI)
    fix e
    assume np: "\<not> startswith url URL_PREFIX" and e: "e \<in> set (pl_entries pl)"
      and s: "startswith (res_url e) URL_PREFIX"
    from e have "res_url e \<in> set (map res_url (pl_entries pl))" by simp
    with b np have "res_url e \<in> set (map (\<lambda>li. urljoin X ?base (anchor_url X li)) ?kept)"
      by simp
    then obtain li where "li \<in> set ?kept" "res_url e = urljoin X ?base (anchor_url X li)"
      by auto
    with s show "\<exists>li \<in> set (finditer_section_items X webpage). kept_item X li
                  \<and> startswith (urljoin X ?base (anchor_url X li)) URL_PREFIX"
      by auto
  qed
  from m d u a b c show ?thesis by blast
qed

text \<open>The same page under a prefixed and under an unprefixed course URL.\<close>

theorem prefix_round_trip_witness:
  "startswith vrdev_course_url URL_PREFIX
   \<and> fst (TeachableCourseIE_real_extract (course_fixture complete_items) vrdev_course_url st0)
       = Inr vrdev_playlist
   \<and> list_all (\<lambda>e. startswith (res_url e) URL_PREFIX) (pl_entries vrdev_playlist)
   \<and> \<not> startswith gns3_course_url URL_PREFIX
   \<and> fst (TeachableCourseIE_real_extract (course_fixture complete_items) gns3_course_url st0)
       = Inr gns3_playlist
   \<and> list_all (\<lambda>e. \<not> startswith (res_url e) URL_PREFIX) (pl_entries gns3_playlist)"
proof -
  let ?X = "course_fixture complete_items"
  have p: "startswith vrdev_course_url URL_PREFIX" by code_simp
  have h1: "fst (TeachableCourseIE_real_extract ?X vrdev_course_url st0) = Inr vrdev_playlist"
    by code_simp
  from prefix_round_trip [OF h1] p
  have r: "list_all (\<lambda>e. startswith (res_url e) URL_PREFIX) (pl_entries vrdev_playlist)"
    by blast
  have q: "\<not> startswith gns3_course_url URL_PREFIX" by code_simp
  have g1: "fst (TeachableCourseIE_real_extract ?X gns3_course_url st0) = Inr gns3_playlist"
    by code_simp
  have g2: "list_all (\<lambda>e. \<not> startswith (res_url e) URL_PREFIX) (pl_entries gns3_playlist)"
    by code_simp
  from p h1 r q g1 g2 show ?thesis by (intro conjI)
qed

text \<open>
  The claim C8 as stated fails: under an unprefixed course URL, an anchor whose \<open>href\<close>
  itself starts with the escape prefix gives a reference that is prefixed.
\<close>

theorem unprefixed_course_counterexample:
  "\<not> startswith gns3_course_url URL_PREFIX
   \<and> fst (TeachableCourseIE_real_extract (course_fixture escaped_items) gns3_course_url st0)
       = Inr escaped_playlist
   \<and> list_ex (\<lambda>e. startswith (res_url e) URL_PREFIX) (pl_entries escaped_playlist)"
  by code_simp

end
